theory Spec2Isabelle
  imports Main
begin

section \<open>Hosted Locations Playground: state\<close>

text \<open>
  The component \<^verbatim>\<open>HostedLocationsPlayground\<close> of
  \<^verbatim>\<open>interface/app/$libraryId/settings/client/account/index.tsx\<close> holds two pieces
  of local state (\<^verbatim>\<open>locationName\<close>, \<^verbatim>\<open>path\<close>), one query
  (\<^verbatim>\<open>cloud.locations.list\<close>) and three mutations. The model is a record of
  these, together with the trace of commands the component has sent to its collaborators
  (requests to the bridge, refetches, toasts), oldest first.
\<close>

text \<open>A cloud location, as the list query returns it: \<^verbatim>\<open>{ id: string, name: string }\<close>.\<close>

record location =
  location_id :: string
  location_name :: string

text \<open>The error a bridge call fails with; the component reads its \<^verbatim>\<open>message\<close> only.\<close>

record bridge_error =
  code :: int
  message :: string

text \<open>
  Modelled from the spec: the query hook \<^verbatim>\<open>useBridgeQuery\<close> of the client package.
  An enabled query is in one of the states \<^verbatim>\<open>'loading'\<close>, \<^verbatim>\<open>'error'\<close>,
  \<^verbatim>\<open>'success'\<close>; its \<^verbatim>\<open>data\<close> is \<^verbatim>\<open>undefined\<close> (here \<open>None\<close>) until a fetch has
  succeeded.
\<close>

datatype query_status = QLoading | QError | QSuccess

record locations_query =
  status :: query_status
  data :: "location list option"

text \<open>
  Modelled from the spec: the mutation hook \<^verbatim>\<open>useBridgeMutation\<close> of the client
  package. A mutation is in flight (\<^verbatim>\<open>isLoading\<close>) from the call of \<^verbatim>\<open>mutate\<close>
  until it settles.
\<close>

datatype mutation_status = MIdle | MLoading | MSuccess | MError

definition mutation_isLoading :: "mutation_status \<Rightarrow> bool" where
  "mutation_isLoading m = (m = MLoading)"

text \<open>What the component sends out.\<close>

datatype command =
    Refetch
  | CreateRequest string
  | RemoveRequest string
  | TestingRequest string string
  | ToastSuccess string
  | ToastError string

record playground =
  locations :: locations_query
  locationName :: string
  path :: string
  createLocation :: mutation_status
  removeLocation :: mutation_status
  doTheThing :: mutation_status
  sent :: "command list"

text \<open>
  The first render: both \<^verbatim>\<open>useState('')\<close>, the query loading, no mutation called.
\<close>

definition mounted :: playground where
  "mounted =
     \<lparr>locations = \<lparr>status = QLoading, data = None\<rparr>,
      locationName = [], path = [],
      createLocation = MIdle, removeLocation = MIdle, doTheThing = MIdle,
      sent = []\<rparr>"

subsection \<open>Calls into the hooks\<close>

definition send :: "command \<Rightarrow> playground \<Rightarrow> playground" where
  "send c st = st\<lparr>sent := sent st @ [c]\<rparr>"

definition locations_refetch :: "playground \<Rightarrow> playground" where
  "locations_refetch st = send Refetch st"

definition setLocationName :: "string \<Rightarrow> playground \<Rightarrow> playground" where
  "setLocationName v st = st\<lparr>locationName := v\<rparr>"

definition setPath :: "string \<Rightarrow> playground \<Rightarrow> playground" where
  "setPath v st = st\<lparr>path := v\<rparr>"

definition createLocation_mutate :: "string \<Rightarrow> playground \<Rightarrow> playground" where
  "createLocation_mutate n st = send (CreateRequest n) (st\<lparr>createLocation := MLoading\<rparr>)"

definition removeLocation_mutate :: "string \<Rightarrow> playground \<Rightarrow> playground" where
  "removeLocation_mutate i st = send (RemoveRequest i) (st\<lparr>removeLocation := MLoading\<rparr>)"

definition doTheThing_mutate :: "string \<Rightarrow> string \<Rightarrow> playground \<Rightarrow> playground" where
  "doTheThing_mutate i p st = send (TestingRequest i p) (st\<lparr>doTheThing := MLoading\<rparr>)"

subsection \<open>The callbacks given to the mutations\<close>

text \<open>
  \<^verbatim>\<open>createLocation\<close>: \<^verbatim>\<open>onSuccess(data) { locations.refetch(); setLocationName(''); }\<close>
\<close>

definition createLocation_onSuccess :: "location \<Rightarrow> playground \<Rightarrow> playground" where
  "createLocation_onSuccess d st = setLocationName [] (locations_refetch st)"

text \<open>\<^verbatim>\<open>removeLocation\<close>: \<^verbatim>\<open>onSuccess() { locations.refetch(); }\<close>\<close>

definition removeLocation_onSuccess :: "playground \<Rightarrow> playground" where
  "removeLocation_onSuccess st = locations_refetch st"

text \<open>
  \<^verbatim>\<open>doTheThing\<close>: \<^verbatim>\<open>onSuccess() { toast.success('Uploaded file!'); }\<close> and
  \<^verbatim>\<open>onError(err) { toast.error(err.message); }\<close>
\<close>

definition doTheThing_onSuccess :: "playground \<Rightarrow> playground" where
  "doTheThing_onSuccess st = send (ToastSuccess ''Uploaded file!'') st"

definition doTheThing_onError :: "bridge_error \<Rightarrow> playground \<Rightarrow> playground" where
  "doTheThing_onError err st = send (ToastError (message err)) st"

subsection \<open>The handlers of the controls\<close>

text \<open>
  A handler is a closure; what it captured at render time is the argument of its
  constructor. In source order: the \<^verbatim>\<open>onInput\<close> of the name field, the
  \<^verbatim>\<open>onClick\<close> of Create Location (it reads \<^verbatim>\<open>locationName\<close>), the
  \<^verbatim>\<open>onClick\<close> of a row's Delete (it reads \<^verbatim>\<open>location.id\<close>), the \<^verbatim>\<open>onClick\<close> of
  a row's Do the thing (it reads \<^verbatim>\<open>location.id\<close> and \<^verbatim>\<open>path\<close>), the \<^verbatim>\<open>onInput\<close>
  of the path field.
\<close>

datatype handler =
    OnInput_locationName
  | OnClick_create string
  | OnClick_delete string
  | OnClick_doTheThing string string
  | OnInput_path

text \<open>
  \<open>fire h v\<close> runs handler \<open>h\<close> on an event whose \<^verbatim>\<open>e.currentTarget.value\<close> is
  \<open>v\<close> (the click handlers do not read it).
\<close>

fun fire :: "handler \<Rightarrow> string \<Rightarrow> playground \<Rightarrow> playground" where
  "fire OnInput_locationName v st = setLocationName v st"
| "fire (OnClick_create n) v st = (if n = [] then st else createLocation_mutate n st)"
| "fire (OnClick_delete i) v st = removeLocation_mutate i st"
| "fire (OnClick_doTheThing i p) v st = doTheThing_mutate i p st"
| "fire OnInput_path v st = setPath v st"

subsection \<open>The effect that fills the path field\<close>

text \<open>\<^verbatim>\<open>locations.data?.[0]\<close>: \<^verbatim>\<open>undefined\<close> without data or on an empty list.\<close>

fun first_location :: "location list option \<Rightarrow> location option" where
  "first_location None = None"
| "first_location (Some []) = None"
| "first_location (Some (l # ls)) = Some l"

text \<open>
  \<^verbatim>\<open>if (path === '' && locations.data?.[0]) setPath(`location/${locations.data[0].id}/hello.txt`)\<close>;
  a location is an object, so it is truthy whenever it is there.
\<close>

definition useEffect_path :: "playground \<Rightarrow> playground" where
  "useEffect_path st =
     (if path st = [] then
        (case first_location (data (locations st)) of
           None \<Rightarrow> st
         | Some l \<Rightarrow> setPath (''location/'' @ location_id l @ ''/hello.txt'') st)
      else st)"

subsection \<open>Render\<close>

text \<open>
  \<^verbatim>\<open>const isLoading = createLocation.isLoading || removeLocation.isLoading || doTheThing.isLoading\<close>
\<close>

definition isLoading :: "playground \<Rightarrow> bool" where
  "isLoading st =
     (mutation_isLoading (createLocation st) \<or> mutation_isLoading (removeLocation st)
      \<or> mutation_isLoading (doTheThing st))"

datatype input = Input (input_value: string) (onInput: handler) (input_disabled: bool)

datatype button = Button (button_label: string) (onClick: handler) (button_disabled: bool)

text \<open>One row of the list: its key, its heading, its Delete and its Do the thing.\<close>

datatype row = Row (row_key: string) (row_title: string) (delete_button: button) (thing_button: button)

text \<open>
  The three kinds of element the list region is made of: \<^verbatim>\<open><div>Loading!</div>\<close>,
  \<^verbatim>\<open><div>Looks like you don't have any!</div>\<close>, and the \<^verbatim>\<open><div>\<close> around the rows.
\<close>

datatype region = LoadingDiv | EmptyDiv | ListDiv "row list"

definition render_row :: "playground \<Rightarrow> location \<Rightarrow> row" where
  "render_row st l =
     Row (location_id l) (location_name l)
       (Button ''Delete'' (OnClick_delete (location_id l)) (isLoading st))
       (Button ''Do the thing'' (OnClick_doTheThing (location_id l) (path st)) (isLoading st))"

text \<open>\<^verbatim>\<open>locations.data?.length === 0\<close>\<close>

fun data_length_is_0 :: "location list option \<Rightarrow> bool" where
  "data_length_is_0 None = False"
| "data_length_is_0 (Some ls) = (length ls = 0)"

text \<open>\<^verbatim>\<open>locations.data?.map(...)\<close>: nothing is rendered for \<^verbatim>\<open>undefined\<close>.\<close>

fun data_map :: "(location \<Rightarrow> row) \<Rightarrow> location list option \<Rightarrow> row list" where
  "data_map f None = []"
| "data_map f (Some ls) = map f ls"

text \<open>
  Lines 140 to 172: two sibling expressions. The first gives the loading text or
  \<^verbatim>\<open>null\<close>; the second gives the empty text, or else the \<^verbatim>\<open><div>\<close> of rows.
\<close>

definition render_locations :: "playground \<Rightarrow> region list" where
  "render_locations st =
     (if status (locations st) = QLoading then [LoadingDiv] else []) @
     [if status (locations st) \<noteq> QLoading \<and> data_length_is_0 (data (locations st))
      then EmptyDiv
      else ListDiv (data_map (render_row st) (data (locations st)))]"

record view =
  name_input :: input
  create_button :: button
  list_region :: "region list"
  path_input :: input

definition render :: "playground \<Rightarrow> view" where
  "render st =
     \<lparr>name_input = Input (locationName st) OnInput_locationName (isLoading st),
      create_button = Button ''Create Location'' (OnClick_create (locationName st)) (isLoading st),
      list_region = render_locations st,
      path_input = Input (path st) OnInput_path (isLoading st)\<rparr>"

text \<open>The rows on screen.\<close>

fun region_rows :: "region \<Rightarrow> row list" where
  "region_rows (ListDiv rs) = rs"
| "region_rows LoadingDiv = []"
| "region_rows EmptyDiv = []"

definition rows :: "view \<Rightarrow> row list" where
  "rows v = concat (map region_rows (list_region v))"

text \<open>
  What the user can tell apart in the list region: the loading text, the empty text, one
  or more rows; and how many of the three are on screen.
\<close>

definition shows_loading :: "region list \<Rightarrow> bool" where
  "shows_loading R = (LoadingDiv \<in> set R)"

definition shows_empty :: "region list \<Rightarrow> bool" where
  "shows_empty R = (EmptyDiv \<in> set R)"

definition shows_rows :: "region list \<Rightarrow> bool" where
  "shows_rows R = (concat (map region_rows R) \<noteq> [])"

definition states_shown :: "region list \<Rightarrow> nat" where
  "states_shown R = length (filter id [shows_loading R, shows_empty R, shows_rows R])"

subsection \<open>Events\<close>

text \<open>
  What can happen to a mounted playground: the user types into one of the two fields,
  clicks Create Location, clicks Delete or Do the thing in the row at some index; a
  mutation settles with a result or an error; the list query delivers a result or an
  error. An event of a control is the call of its handler: a control that is
  \<^verbatim>\<open>disabled\<close> is one that produces no events.
\<close>

datatype event =
    NameInput string
  | CreateClick
  | DeleteClick nat
  | DoTheThingClick nat
  | PathInput string
  | CreateSettled "bridge_error + location"
  | RemoveSettled "bridge_error + unit"
  | DoTheThingSettled "bridge_error + unit"
  | LocationsSettled "bridge_error + location list"

fun is_PathInput :: "event \<Rightarrow> bool" where
  "is_PathInput (PathInput v) = True"
| "is_PathInput e = False"

text \<open>A click on row \<open>i\<close> runs the handler that the current render put there.\<close>

definition row_click :: "(row \<Rightarrow> button) \<Rightarrow> nat \<Rightarrow> playground \<Rightarrow> playground" where
  "row_click b i st =
     (if i < length (rows (render st))
      then fire (onClick (b (rows (render st) ! i))) [] st
      else st)"

text \<open>
  Settling: the mutation leaves \<^verbatim>\<open>isLoading\<close> and its callback runs. Only
  \<^verbatim>\<open>doTheThing\<close> has an \<^verbatim>\<open>onError\<close>. A failed list query keeps the data it had.
\<close>

fun handle :: "event \<Rightarrow> playground \<Rightarrow> playground" where
  "handle (NameInput v) st = fire (onInput (name_input (render st))) v st"
| "handle CreateClick st = fire (onClick (create_button (render st))) [] st"
| "handle (DeleteClick i) st = row_click delete_button i st"
| "handle (DoTheThingClick i) st = row_click thing_button i st"
| "handle (PathInput v) st = fire (onInput (path_input (render st))) v st"
| "handle (CreateSettled (Inr d)) st = createLocation_onSuccess d (st\<lparr>createLocation := MSuccess\<rparr>)"
| "handle (CreateSettled (Inl err)) st = st\<lparr>createLocation := MError\<rparr>"
| "handle (RemoveSettled (Inr u)) st = removeLocation_onSuccess (st\<lparr>removeLocation := MSuccess\<rparr>)"
| "handle (RemoveSettled (Inl err)) st = st\<lparr>removeLocation := MError\<rparr>"
| "handle (DoTheThingSettled (Inr u)) st = doTheThing_onSuccess (st\<lparr>doTheThing := MSuccess\<rparr>)"
| "handle (DoTheThingSettled (Inl err)) st = doTheThing_onError err (st\<lparr>doTheThing := MError\<rparr>)"
| "handle (LocationsSettled (Inr ls)) st = st\<lparr>locations := \<lparr>status = QSuccess, data = Some ls\<rparr>\<rparr>"
| "handle (LocationsSettled (Inl err)) st =
     st\<lparr>locations := \<lparr>status = QError, data = data (locations st)\<rparr>\<rparr>"

text \<open>
  After the state change the component renders and the effect runs. Its dependencies are
  \<^verbatim>\<open>[path, locations.data]\<close>; once it has run, running it again on unchanged
  dependencies does nothing (lemma \<open>useEffect_path_same_deps\<close>), so the model runs
  it after every event.
\<close>

definition step :: "event \<Rightarrow> playground \<Rightarrow> playground" where
  "step e st = useEffect_path (handle e st)"

fun run :: "event list \<Rightarrow> playground \<Rightarrow> playground" where
  "run [] st = st"
| "run (e # es) st = run es (step e st)"

text \<open>
  What the query hook keeps true: while the status is \<^verbatim>\<open>'loading'\<close> there is no
  data.
\<close>

definition query_consistent :: "playground \<Rightarrow> bool" where
  "query_consistent st = (status (locations st) = QLoading \<longrightarrow> data (locations st) = None)"

section \<open>Account panel\<close>

text \<open>
  \<^verbatim>\<open>Component\<close> of the same file. On mount it fetches
  \<^verbatim>\<open>http://localhost:9420/api/user\<close>, parses the body as JSON and keeps the value,
  or \<^verbatim>\<open>null\<close>, in \<^verbatim>\<open>userInfo\<close>.
\<close>

text \<open>
  A parsed JSON value. An object lists its members in the order of the text. The
  component never computes with a number, so the integers stand for all of them.
\<close>

datatype json =
    JNull
  | JBool bool
  | JNum int
  | JStr string
  | JArr "json list"
  | JObj "(string \<times> json) list"

datatype js_error = TypeError | SyntaxError

text \<open>
  How the request ends: \<^verbatim>\<open>fetch\<close> rejects (no connection), or it resolves with a
  response of some HTTP status, whose body either parses to a JSON value or does not
  (\<open>None\<close>). \<^verbatim>\<open>fetch\<close> resolves whatever the status is.
\<close>

datatype fetch_outcome = Rejected | Response nat "json option"

text \<open>\<^verbatim>\<open>Response.ok\<close>: the status is in the range 200 to 299. The component never reads it.\<close>

definition ok :: "nat \<Rightarrow> bool" where
  "ok n = (200 \<le> n \<and> n \<le> 299)"

text \<open>
  Reading a property named \<open>k\<close> of a value that is not \<^verbatim>\<open>null\<close>, for the two names
  the component reads (\<^verbatim>\<open>message\<close>, \<^verbatim>\<open>email\<close>), which no built-in prototype
  defines: an object gives its member (the last one of that name, as \<^verbatim>\<open>JSON.parse\<close>
  keeps it), anything else gives \<^verbatim>\<open>undefined\<close> (here \<open>None\<close>).
\<close>

fun property :: "json \<Rightarrow> string \<Rightarrow> json option" where
  "property (JObj ms) k = map_of (rev ms) k"
| "property v k = None"

record account =
  userInfo :: json

text \<open>\<^verbatim>\<open>useState<User | null>(null)\<close>\<close>

definition account_mounted :: account where
  "account_mounted = \<lparr>userInfo = JNull\<rparr>"

text \<open>
  The inner \<^verbatim>\<open>async function _()\<close>: \<^verbatim>\<open>await fetch(...)\<close>, then
  \<^verbatim>\<open>await user_data.json()\<close>.
\<close>

fun fetch_user :: "fetch_outcome \<Rightarrow> js_error + json" where
  "fetch_user Rejected = Inl TypeError"
| "fetch_user (Response n None) = Inl SyntaxError"
| "fetch_user (Response n (Some d)) = Inr d"

text \<open>
  The callback of \<^verbatim>\<open>.then\<close>: \<^verbatim>\<open>data.message\<close> throws on \<^verbatim>\<open>null\<close>; otherwise
  \<^verbatim>\<open>if (data.message !== 'unauthorised') setUserInfo(data); else setUserInfo(null);\<close>
\<close>

definition then_callback :: "json \<Rightarrow> account \<Rightarrow> js_error + account" where
  "then_callback d st =
     (if d = JNull then Inl TypeError
      else if property d ''message'' \<noteq> Some (JStr ''unauthorised'')
      then Inr (st\<lparr>userInfo := d\<rparr>)
      else Inr (st\<lparr>userInfo := JNull\<rparr>))"

text \<open>
  The effect: \<^verbatim>\<open>_().then(callback)\<close>, with no \<^verbatim>\<open>catch\<close>. A rejection, of the
  fetch, of the parse or of the callback, leaves the state as it was.
\<close>

definition useEffect_user :: "fetch_outcome \<Rightarrow> account \<Rightarrow> account" where
  "useEffect_user r st =
     (case fetch_user r of
        Inl e \<Rightarrow> st
      | Inr d \<Rightarrow> (case then_callback d st of Inl e \<Rightarrow> st | Inr st' \<Rightarrow> st'))"

text \<open>
  What \<^verbatim>\<open>Component\<close> returns: the logout button is there when
  \<^verbatim>\<open>userInfo !== null\<close>; the body is \<^verbatim>\<open><Tabs />\<close> when \<^verbatim>\<open>userInfo === null\<close> and
  \<^verbatim>\<open><Profile authStore={authStore} email={userInfo.email} />\<close> otherwise; the
  playground is there when the feature flag \<^verbatim>\<open>hostedLocations\<close> is on.
\<close>

datatype 'a body = Tabs | Profile 'a "json option"

record 'a account_view =
  logout_button :: bool
  body :: "'a body"
  hosted_locations :: bool

definition Component :: "'a \<Rightarrow> bool \<Rightarrow> account \<Rightarrow> 'a account_view" where
  "Component authStore flag st =
     \<lparr>logout_button = (userInfo st \<noteq> JNull),
      body = (if userInfo st = JNull then Tabs
              else Profile authStore (property (userInfo st) ''email'')),
      hosted_locations = flag\<rparr>"

text \<open>The component after its effect has run to the end on outcome \<open>r\<close>.\<close>

definition Component_after :: "'a \<Rightarrow> bool \<Rightarrow> fetch_outcome \<Rightarrow> 'a account_view" where
  "Component_after authStore flag r = Component authStore flag (useEffect_user r account_mounted)"

section \<open>Recent Items card\<close>

text \<open>
  \<^verbatim>\<open>RecentItemsCard\<close> of \<^verbatim>\<open>interface/app/$libraryId/overview/cards/RecentItems.tsx\<close>
  calls \<^verbatim>\<open>useLibraryQuery\<close> with a constant key and argument.
\<close>

subsection \<open>\<^verbatim>\<open>new Date(0).toISOString()\<close>\<close>

text \<open>
  A valid \<^verbatim>\<open>Date\<close> holds its time value, the milliseconds since the start of
  1 January 1970 UTC.
\<close>

datatype date = Date int

definition digit :: "int \<Rightarrow> char" where
  "digit n = ''0123456789'' ! nat (n mod 10)"

definition pad2 :: "int \<Rightarrow> string" where
  "pad2 n = [digit (n div 10), digit n]"

definition pad3 :: "int \<Rightarrow> string" where
  "pad3 n = digit (n div 100) # pad2 n"

definition pad4 :: "int \<Rightarrow> string" where
  "pad4 n = digit (n div 1000) # pad3 n"

definition pad6 :: "int \<Rightarrow> string" where
  "pad6 n = [digit (n div 100000), digit (n div 10000)] @ pad4 n"

text \<open>
  Year, month (1 to 12) and day of the month of day number \<open>z\<close>, counted from 1 January
  1970, in the proleptic Gregorian calendar. The count is shifted to start on 1 March of
  year 0 and cut into eras of 400 years (146097 days).
\<close>

definition civil_from_days :: "int \<Rightarrow> int \<times> int \<times> int" where
  "civil_from_days z =
     (let era = (z + 719468) div 146097;
          doe = (z + 719468) mod 146097;
          yoe = (doe - doe div 1460 + doe div 36524 - doe div 146096) div 365;
          doy = doe - (365 * yoe + yoe div 4 - yoe div 100);
          mp = (5 * doy + 2) div 153;
          d = doy - (153 * mp + 2) div 5 + 1;
          m = (if mp < 10 then mp + 3 else mp - 9);
          y = yoe + era * 400 + (if m \<le> 2 then 1 else 0)
      in (y, m, d))"

text \<open>Years 0 to 9999 are written with four digits, the others with a sign and six.\<close>

definition year_string :: "int \<Rightarrow> string" where
  "year_string y =
     (if 0 \<le> y \<and> y \<le> 9999 then pad4 y
      else if y < 0 then CHR ''-'' # pad6 (- y)
      else CHR ''+'' # pad6 y)"

definition toISOString :: "date \<Rightarrow> string" where
  "toISOString dt =
     (case dt of Date t \<Rightarrow>
        (case civil_from_days (t div 86400000) of (y, m, d) \<Rightarrow>
           year_string y @ ''-'' @ pad2 m @ ''-'' @ pad2 d @ ''T''
           @ pad2 (t mod 86400000 div 3600000) @ '':''
           @ pad2 (t mod 3600000 div 60000) @ '':''
           @ pad2 (t mod 60000 div 1000) @ ''.''
           @ pad3 (t mod 1000) @ ''Z''))"

subsection \<open>The query\<close>

datatype order_only = OrderOnly (field: string) (val: string)

datatype order_and_pagination = OrderAndPagination (orderOnly: order_only)

datatype range = From (from_bound: string)

datatype object_filter = DateAccessed_filter (dateAccessed: range)

datatype search_filter = Object_filter (object_of: object_filter)

record search_args =
  take_arg :: int
  orderAndPagination :: order_and_pagination
  filters :: "search_filter list"

text \<open>The argument of \<^verbatim>\<open>useLibraryQuery\<close>: the key and its input.\<close>

definition recentItemsQuery :: "string \<times> search_args" where
  "recentItemsQuery =
     (''search.objects'',
      \<lparr>take_arg = 6,
       orderAndPagination = OrderAndPagination (OrderOnly ''dateAccessed'' ''Desc''),
       filters = [Object_filter (DateAccessed_filter (From (toISOString (Date 0))))]\<rparr>)"

section \<open>Properties of the Hosted Locations Playground\<close>

subsection \<open>What the effect and the handlers leave alone\<close>

lemma sent_useEffect_path [simp]: "sent (useEffect_path st) = sent st"
  by (simp add: useEffect_path_def setPath_def split: option.splits)

lemma locationName_useEffect_path [simp]:
  "locationName (useEffect_path st) = locationName st"
  by (simp add: useEffect_path_def setPath_def split: option.splits)

lemma locations_useEffect_path [simp]: "locations (useEffect_path st) = locations st"
  by (simp add: useEffect_path_def setPath_def split: option.splits)

lemma path_useEffect_path:
  "path (useEffect_path st) =
     (if path st = [] then
        (case first_location (data (locations st)) of
           None \<Rightarrow> []
         | Some l \<Rightarrow> ''location/'' @ location_id l @ ''/hello.txt'')
      else path st)"
  by (simp add: useEffect_path_def setPath_def split: option.splits)

lemma useEffect_path_mounted: "useEffect_path mounted = mounted"
  by (simp add: useEffect_path_def mounted_def)

lemma useEffect_path_idem: "useEffect_path (useEffect_path st) = useEffect_path st"
  by (simp add: useEffect_path_def setPath_def split: option.splits)

lemma useEffect_path_same_deps:
  assumes "useEffect_path s = s"
    and "path s' = path s" and "data (locations s') = data (locations s)"
  shows "useEffect_path s' = s'"
proof (cases "path s = []")
  case True
  have "path (useEffect_path s) = path s"
    using assms(1) by simp
  with True have "first_location (data (locations s)) = None"
    by (simp add: path_useEffect_path split: option.splits)
  with assms(2,3) show ?thesis
    by (simp add: useEffect_path_def)
next
  case False
  with assms(2) show ?thesis
    by (simp add: useEffect_path_def)
qed

lemma path_fire:
  "h \<noteq> OnInput_path \<Longrightarrow> path (fire h v st) = path st"
  by (cases h) (simp_all add: setLocationName_def createLocation_mutate_def
      removeLocation_mutate_def doTheThing_mutate_def send_def)

lemma locations_fire [simp]: "locations (fire h v st) = locations st"
  by (cases h) (simp_all add: setLocationName_def setPath_def createLocation_mutate_def
      removeLocation_mutate_def doTheThing_mutate_def send_def)

subsection \<open>The rows on screen\<close>

lemma rows_render:
  "rows (render st) =
     (if status (locations st) \<noteq> QLoading \<and> data_length_is_0 (data (locations st)) then []
      else data_map (render_row st) (data (locations st)))"
  by (simp add: rows_def render_def render_locations_def)

lemma rows_render_Some:
  "data (locations st) = Some ls \<Longrightarrow> rows (render st) = map (render_row st) ls"
  by (simp add: rows_render)

lemma rows_render_row:
  "r \<in> set (rows (render st)) \<Longrightarrow> \<exists>l. r = render_row st l"
  by (cases "data (locations st)") (auto simp: rows_render split: if_splits)

lemma path_row_click:
  assumes "b = delete_button \<or> b = thing_button"
  shows "path (row_click b i st) = path st"
proof (cases "i < length (rows (render st))")
  case True
  then obtain l where "rows (render st) ! i = render_row st l"
    using rows_render_row [of "rows (render st) ! i" st] by auto
  with assms have "onClick (b (rows (render st) ! i)) \<noteq> OnInput_path"
    by (auto simp: render_row_def)
  then show ?thesis
    by (simp add: row_click_def path_fire)
next
  case False
  then show ?thesis by (simp add: row_click_def)
qed

subsection \<open>Creating a location\<close>

text \<open>
  C4. When the create mutation succeeds, the name field is set to the empty string and
  exactly one refetch of the list is sent: the trace of commands grows by one
  \<open>Refetch\<close> and nothing else. This holds for the callback and for the whole step of
  the settling event.
\<close>

theorem create_success_clears_name_refetches_once:
  "locationName (createLocation_onSuccess d st) = [] \<and>
   sent (createLocation_onSuccess d st) = sent st @ [Refetch] \<and>
   locationName (step (CreateSettled (Inr d)) st) = [] \<and>
   sent (step (CreateSettled (Inr d)) st) = sent st @ [Refetch]"
  by (simp add: step_def createLocation_onSuccess_def setLocationName_def
      locations_refetch_def send_def)

text \<open>
  C5. A click on Create Location while the name field holds the empty string changes
  nothing: the handler returns at once, so no command is sent, no mutation starts, and
  the name field still holds the empty string.
\<close>

theorem create_click_empty_name_is_noop:
  "locationName st = [] \<Longrightarrow>
   handle CreateClick st = st \<and>
   sent (step CreateClick st) = sent st \<and>
   locationName (step CreateClick st) = locationName st"
  by (simp add: step_def render_def)

theorem create_click_empty_name_is_noop_witness:
  "locationName mounted = [] \<and>
   handle CreateClick mounted = mounted \<and>
   sent (step CreateClick mounted) = [] \<and>
   locationName (step CreateClick mounted) = []"
proof -
  have empty: "locationName mounted = []"
    by (simp add: mounted_def)
  from create_click_empty_name_is_noop [OF empty] empty show ?thesis
    by (simp add: mounted_def)
qed

text \<open>
  C9. The guard of Create Location compares the name with the empty string and nothing
  else: typing \<open>n\<close> and clicking sends no request when \<open>n\<close> is the empty string, and
  otherwise sends the create request with \<open>n\<close> as typed. So a name of blanks only, a
  single space for one, is sent, and it is sent untrimmed.
\<close>

theorem create_click_sends_name_as_typed:
  "sent (run [NameInput n, CreateClick] st) =
     (if n = [] then sent st else sent st @ [CreateRequest n])"
  by (simp add: step_def render_def setLocationName_def createLocation_mutate_def send_def)

subsection \<open>The diagnostic mutation\<close>

text \<open>
  C8. When the Do the thing mutation settles, one notification is shown: on success the
  success toast, on failure the error toast whose text is the message of the error.
\<close>

theorem doTheThing_settled_toasts:
  "sent (step (DoTheThingSettled (Inr u)) st) = sent st @ [ToastSuccess ''Uploaded file!''] \<and>
   sent (step (DoTheThingSettled (Inl err)) st) = sent st @ [ToastError (message err)]"
  by (simp add: step_def doTheThing_onSuccess_def doTheThing_onError_def send_def)

text \<open>
  C10. There is one path, the state \<^verbatim>\<open>path\<close>, for all rows: whatever row \<open>i\<close> of
  the list is clicked, the handler of its Do the thing button holds the id of that row's
  location and the current value of the path field, and the click sends the diagnostic
  request with exactly these two.
\<close>

theorem doTheThing_click_uses_shared_path:
  "data (locations st) = Some ls \<Longrightarrow> i < length ls \<Longrightarrow>
   onClick (thing_button (rows (render st) ! i))
     = OnClick_doTheThing (location_id (ls ! i)) (path st) \<and>
   sent (step (DoTheThingClick i) st)
     = sent st @ [TestingRequest (location_id (ls ! i)) (path st)]"
  by (simp add: step_def row_click_def rows_render_Some render_row_def
      doTheThing_mutate_def send_def)

theorem doTheThing_click_uses_shared_path_witness:
  "sent (step (DoTheThingClick 1)
      (run [LocationsSettled (Inr [\<lparr>location_id = ''a'', location_name = ''n''\<rparr>,
                                  \<lparr>location_id = ''b'', location_name = ''m''\<rparr>]),
            PathInput ''shared/path.txt''] mounted))
     = [TestingRequest ''b'' ''shared/path.txt'']"
proof -
  let ?ls = "[\<lparr>location_id = ''a'', location_name = ''n''\<rparr>,
              \<lparr>location_id = ''b'', location_name = ''m''\<rparr>]"
  let ?s = "run [LocationsSettled (Inr ?ls), PathInput ''shared/path.txt''] mounted"
  have s: "?s = \<lparr>locations = \<lparr>status = QSuccess, data = Some ?ls\<rparr>,
      locationName = [], path = ''shared/path.txt'',
      createLocation = MIdle, removeLocation = MIdle, doTheThing = MIdle, sent = []\<rparr>"
    by (simp add: step_def useEffect_path_def setPath_def render_def mounted_def)
  have d: "data (locations ?s) = Some ?ls" and i: "(1::nat) < length ?ls"
    unfolding s by simp_all
  from doTheThing_click_uses_shared_path [OF d i] show ?thesis
    unfolding s by simp
qed

subsection \<open>The busy flag\<close>

text \<open>
  C3. If any of the three mutations is in flight, every control that changes something
  is disabled: the name field, Create Location, the Delete and the Do the thing of
  every row on screen, and the path field. If none of the three is in flight, every one
  of these is enabled.
\<close>

theorem controls_disabled_while_in_flight:
  "(createLocation st = MLoading \<or> removeLocation st = MLoading \<or> doTheThing st = MLoading
      \<longrightarrow> input_disabled (name_input (render st)) \<and>
          button_disabled (create_button (render st)) \<and>
          (\<forall>r \<in> set (rows (render st)).
             button_disabled (delete_button r) \<and> button_disabled (thing_button r)) \<and>
          input_disabled (path_input (render st))) \<and>
   (createLocation st' \<noteq> MLoading \<and> removeLocation st' \<noteq> MLoading
      \<and> doTheThing st' \<noteq> MLoading
      \<longrightarrow> \<not> input_disabled (name_input (render st')) \<and>
          \<not> button_disabled (create_button (render st')) \<and>
          (\<forall>r \<in> set (rows (render st')).
             \<not> button_disabled (delete_button r) \<and> \<not> button_disabled (thing_button r)) \<and>
          \<not> input_disabled (path_input (render st')))"
proof -
  have row: "button_disabled (delete_button r) = isLoading s \<and>
             button_disabled (thing_button r) = isLoading s"
    if "r \<in> set (rows (render s))" for r s
    using rows_render_row [OF that] by (auto simp: render_row_def)
  have top: "input_disabled (name_input (render s)) = isLoading s \<and>
             button_disabled (create_button (render s)) = isLoading s \<and>
             input_disabled (path_input (render s)) = isLoading s" for s
    by (simp add: render_def)
  show ?thesis
    using row [of _ st] row [of _ st'] top [of st] top [of st']
    by (simp add: isLoading_def mutation_isLoading_def)
qed

theorem controls_disabled_while_in_flight_witness:
  "createLocation (run [LocationsSettled (Inr [\<lparr>location_id = ''a'', location_name = ''n''\<rparr>]),
                        NameInput ''x'', CreateClick] mounted) = MLoading \<and>
   button_disabled (thing_button (rows (render
     (run [LocationsSettled (Inr [\<lparr>location_id = ''a'', location_name = ''n''\<rparr>]),
           NameInput ''x'', CreateClick] mounted)) ! 0)) \<and>
   \<not> button_disabled (thing_button (rows (render
     (run [LocationsSettled (Inr [\<lparr>location_id = ''a'', location_name = ''n''\<rparr>]),
           NameInput ''x'', CreateClick,
           CreateSettled (Inr \<lparr>location_id = ''b'', location_name = ''x''\<rparr>)] mounted)) ! 0))"
proof -
  let ?l = "\<lparr>location_id = ''a'', location_name = ''n''\<rparr>"
  let ?es = "[LocationsSettled (Inr [?l]), NameInput ''x'', CreateClick]"
  let ?s = "run ?es mounted"
  let ?s' = "run (?es @ [CreateSettled (Inr \<lparr>location_id = ''b'', location_name = ''x''\<rparr>)])
               mounted"
  have s: "?s = \<lparr>locations = \<lparr>status = QSuccess, data = Some [?l]\<rparr>,
      locationName = ''x'', path = ''location/a/hello.txt'',
      createLocation = MLoading, removeLocation = MIdle, doTheThing = MIdle,
      sent = [CreateRequest ''x'']\<rparr>"
    by (simp add: step_def useEffect_path_def setPath_def render_def setLocationName_def
        createLocation_mutate_def send_def mounted_def)
  have s': "?s' = \<lparr>locations = \<lparr>status = QSuccess, data = Some [?l]\<rparr>,
      locationName = [], path = ''location/a/hello.txt'',
      createLocation = MSuccess, removeLocation = MIdle, doTheThing = MIdle,
      sent = [CreateRequest ''x'', Refetch]\<rparr>"
    by (simp add: step_def useEffect_path_def setPath_def render_def setLocationName_def
        createLocation_mutate_def createLocation_onSuccess_def locations_refetch_def
        send_def mounted_def)
  have r: "rows (render ?s) ! 0 \<in> set (rows (render ?s))"
    unfolding s by (simp add: rows_def render_def render_locations_def)
  have r': "rows (render ?s') ! 0 \<in> set (rows (render ?s'))"
    unfolding s' by (simp add: rows_def render_def render_locations_def)
  have h: "createLocation ?s = MLoading"
    unfolding s by simp
  have h': "createLocation ?s' \<noteq> MLoading \<and> removeLocation ?s' \<noteq> MLoading
      \<and> doTheThing ?s' \<noteq> MLoading"
    unfolding s' by simp
  from controls_disabled_while_in_flight [of ?s ?s'] h h' r r' show ?thesis
    by auto
qed

subsection \<open>The path field\<close>

lemma path_handle:
  assumes "\<not> is_PathInput e"
  shows "path (handle e st) = path st"
proof (cases e)
  case (DeleteClick i)
  then show ?thesis
    by (simp add: path_row_click)
next
  case (DoTheThingClick i)
  then show ?thesis
    by (simp add: path_row_click)
next
  case (PathInput v)
  with assms show ?thesis by simp
next
  case (CreateSettled x)
  then show ?thesis
    by (cases x) (simp_all add: createLocation_onSuccess_def setLocationName_def
        locations_refetch_def send_def)
next
  case (RemoveSettled x)
  then show ?thesis
    by (cases x) (simp_all add: removeLocation_onSuccess_def locations_refetch_def send_def)
next
  case (DoTheThingSettled x)
  then show ?thesis
    by (cases x) (simp_all add: doTheThing_onSuccess_def doTheThing_onError_def send_def)
next
  case (LocationsSettled x)
  then show ?thesis
    by (cases x) simp_all
qed (simp_all add: render_def setLocationName_def createLocation_mutate_def send_def)

lemma path_step_kept:
  "path st \<noteq> [] \<Longrightarrow> \<not> is_PathInput e \<Longrightarrow> path (step e st) = path st"
  by (simp add: step_def path_useEffect_path path_handle)

lemma path_run_kept:
  "path st \<noteq> [] \<Longrightarrow> \<forall>e \<in> set es. \<not> is_PathInput e \<Longrightarrow> path (run es st) = path st"
  by (induction es arbitrary: st) (simp_all add: path_step_kept)

lemma run_append: "run (es @ es') st = run es' (run es st)"
  by (induction es arbitrary: st) simp_all

lemma path_step_PathInput:
  "v \<noteq> [] \<Longrightarrow> path (step (PathInput v) st) = v"
  by (simp add: step_def path_useEffect_path render_def setPath_def)

text \<open>
  C2, as the claim states it, fails. The list arrives and the empty field is filled from
  its first location; the user types \<open>mine\<close> and the field holds it; the user then
  empties the field, and the effect fills it a second time: the user's last edit is
  overwritten.
\<close>

theorem path_filled_again_counterexample:
  "path (run [LocationsSettled (Inr [\<lparr>location_id = ''a'', location_name = ''n''\<rparr>])] mounted)
     = ''location/a/hello.txt'' \<and>
   path (run [LocationsSettled (Inr [\<lparr>location_id = ''a'', location_name = ''n''\<rparr>]),
              PathInput ''mine''] mounted)
     = ''mine'' \<and>
   path (run [LocationsSettled (Inr [\<lparr>location_id = ''a'', location_name = ''n''\<rparr>]),
              PathInput ''mine'', PathInput []] mounted)
     = ''location/a/hello.txt''"
  by (simp add: step_def useEffect_path_def render_def setPath_def mounted_def)

text \<open>
  C2, amended. After every event the effect fills the path field from the first
  location of the list, as \<open>location/{id}/hello.txt\<close>, whenever the field is empty and
  the list has a first location; it changes the field in no other case. A value that is
  not empty is never overwritten by the effect: once the user has typed a non-empty
  \<open>v\<close>, the field holds \<open>v\<close> through every later sequence of events that are not edits
  of the path field.
\<close>

theorem path_filled_when_empty:
  "(path (handle e st) = [] \<and> first_location (data (locations (handle e st))) = Some l
      \<longrightarrow> path (step e st) = ''location/'' @ location_id l @ ''/hello.txt'') \<and>
   (path (step e' st') \<noteq> path (handle e' st')
      \<longrightarrow> path (handle e' st') = [] \<and>
          first_location (data (locations (handle e' st'))) \<noteq> None) \<and>
   (v \<noteq> [] \<and> (\<forall>x \<in> set after. \<not> is_PathInput x)
      \<longrightarrow> path (run (before @ PathInput v # after) st'') = v)"
proof (intro conjI impI)
  assume "path (handle e st) = [] \<and> first_location (data (locations (handle e st))) = Some l"
  then show "path (step e st) = ''location/'' @ location_id l @ ''/hello.txt''"
    by (simp add: step_def path_useEffect_path)
next
  assume "path (step e' st') \<noteq> path (handle e' st')"
  then show "path (handle e' st') = []"
    by (simp add: step_def path_useEffect_path split: if_splits)
next
  assume "path (step e' st') \<noteq> path (handle e' st')"
  then show "first_location (data (locations (handle e' st'))) \<noteq> None"
    by (auto simp: step_def path_useEffect_path split: if_splits option.splits)
next
  assume a: "v \<noteq> [] \<and> (\<forall>x \<in> set after. \<not> is_PathInput x)"
  have "path (run (before @ PathInput v # after) st'')
          = path (run after (step (PathInput v) (run before st'')))"
    by (simp add: run_append)
  also have "\<dots> = path (step (PathInput v) (run before st''))"
    using a by (intro path_run_kept) (simp_all add: path_step_PathInput)
  also have "\<dots> = v"
    using a by (simp add: path_step_PathInput)
  finally show "path (run (before @ PathInput v # after) st'') = v" .
qed

theorem path_filled_when_empty_witness:
  "path (step (LocationsSettled (Inr [\<lparr>location_id = ''a'', location_name = ''n''\<rparr>])) mounted)
     = ''location/a/hello.txt'' \<and>
   path (run ([NameInput ''x''] @ PathInput ''mine'' # [LocationsSettled (Inr []), CreateClick])
           mounted)
     = ''mine''"
proof -
  let ?l = "\<lparr>location_id = ''a'', location_name = ''n''\<rparr>"
  let ?e = "LocationsSettled (Inr [?l])"
  have 1: "path (handle ?e mounted) = [] \<and>
      first_location (data (locations (handle ?e mounted))) = Some ?l"
    by (simp add: mounted_def)
  have 2: "path (step ?e mounted) \<noteq> path (handle ?e mounted)"
    by (simp add: step_def useEffect_path_def setPath_def mounted_def)
  have 3: "''mine'' \<noteq> [] \<and>
      (\<forall>x \<in> set [LocationsSettled (Inr []), CreateClick]. \<not> is_PathInput x)"
    by simp
  from path_filled_when_empty [of ?e mounted ?l ?e mounted "''mine''"
      "[LocationsSettled (Inr []), CreateClick]" "[NameInput ''x'']" mounted] 1 2 3
  show ?thesis by simp
qed

subsection \<open>The list region\<close>

lemma query_consistent_step:
  assumes "query_consistent st"
  shows "query_consistent (step e st)"
proof (cases e)
  case (CreateSettled x)
  with assms show ?thesis
    by (cases x) (simp_all add: query_consistent_def step_def createLocation_onSuccess_def
        setLocationName_def locations_refetch_def send_def)
next
  case (RemoveSettled x)
  with assms show ?thesis
    by (cases x) (simp_all add: query_consistent_def step_def removeLocation_onSuccess_def
        locations_refetch_def send_def)
next
  case (DoTheThingSettled x)
  with assms show ?thesis
    by (cases x) (simp_all add: query_consistent_def step_def doTheThing_onSuccess_def
        doTheThing_onError_def send_def)
next
  case (LocationsSettled x)
  then show ?thesis
    by (cases x) (simp_all add: query_consistent_def step_def)
qed (use assms in \<open>simp_all add: query_consistent_def step_def row_click_def\<close>)

lemma query_consistent_run: "query_consistent st \<Longrightarrow> query_consistent (run es st)"
  by (induction es arbitrary: st) (simp_all add: query_consistent_step)

lemma query_consistent_mounted: "query_consistent mounted"
  by (simp add: query_consistent_def mounted_def)

lemma shows_render_locations:
  "shows_loading (render_locations st) = (status (locations st) = QLoading)"
  "shows_empty (render_locations st)
     = (status (locations st) \<noteq> QLoading \<and> data (locations st) = Some [])"
  "shows_rows (render_locations st) = (first_location (data (locations st)) \<noteq> None)"
  by (cases "data (locations st)" rule: first_location.cases;
      simp add: shows_loading_def shows_empty_def shows_rows_def render_locations_def)+

text \<open>
  C7, as the claim states it, fails. On the first render the region holds two elements,
  the loading text and the \<^verbatim>\<open><div>\<close> of the rows (with no row in it). When the first
  fetch of the list fails, the region holds that \<^verbatim>\<open><div>\<close> alone, still without rows:
  neither the loading text, nor the empty text, nor any location is on screen.
\<close>

theorem list_region_not_one_state_counterexample:
  "render_locations mounted = [LoadingDiv, ListDiv []] \<and>
   render_locations
     (run [LocationsSettled (Inl \<lparr>code = 500, message = ''Internal error''\<rparr>)] mounted)
     = [ListDiv []] \<and>
   states_shown (render_locations
     (run [LocationsSettled (Inl \<lparr>code = 500, message = ''Internal error''\<rparr>)] mounted))
     = 0"
  by (simp add: render_locations_def mounted_def step_def useEffect_path_def states_shown_def
      shows_loading_def shows_empty_def shows_rows_def)

text \<open>
  C7, amended. In every state reached from a state in which the query holds no data
  while loading, the first render among them, at most one of the loading text, the
  empty text and a non-empty list of rows is on screen. In any state, the loading text
  is shown exactly while the query is loading, the empty text exactly when the query is
  not loading and holds the empty list, and rows exactly when the query holds a first
  location. The \<^verbatim>\<open><div>\<close> of the rows is rendered whenever the empty text is not:
  next to the loading text while loading, and alone otherwise.
\<close>

theorem list_region_at_most_one_state:
  "(query_consistent s \<longrightarrow> states_shown (render_locations (run es s)) \<le> 1) \<and>
   query_consistent mounted \<and>
   shows_loading (render_locations st) = (status (locations st) = QLoading) \<and>
   shows_empty (render_locations st)
     = (status (locations st) \<noteq> QLoading \<and> data (locations st) = Some []) \<and>
   shows_rows (render_locations st) = (first_location (data (locations st)) \<noteq> None) \<and>
   render_locations st =
     (if shows_loading (render_locations st)
      then [LoadingDiv, ListDiv (data_map (render_row st) (data (locations st)))]
      else if shows_empty (render_locations st) then [EmptyDiv]
      else [ListDiv (data_map (render_row st) (data (locations st)))])"
proof -
  have "states_shown (render_locations (run es s)) \<le> 1" if "query_consistent s"
  proof -
    from that have "query_consistent (run es s)"
      by (rule query_consistent_run)
    then show ?thesis
      by (cases "data (locations (run es s))" rule: first_location.cases)
        (auto simp: states_shown_def shows_render_locations query_consistent_def)
  qed
  moreover have "render_locations st =
     (if shows_loading (render_locations st)
      then [LoadingDiv, ListDiv (data_map (render_row st) (data (locations st)))]
      else if shows_empty (render_locations st) then [EmptyDiv]
      else [ListDiv (data_map (render_row st) (data (locations st)))])"
    unfolding shows_render_locations
    by (cases "data (locations st)" rule: first_location.cases)
      (simp_all add: render_locations_def)
  ultimately show ?thesis
    by (simp add: shows_render_locations query_consistent_mounted)
qed

theorem list_region_at_most_one_state_witness:
  "query_consistent mounted \<and>
   states_shown (render_locations
     (run [LocationsSettled (Inr [\<lparr>location_id = ''a'', location_name = ''n''\<rparr>]),
           LocationsSettled (Inl \<lparr>code = 500, message = ''Internal error''\<rparr>)] mounted))
     \<le> 1"
proof -
  have c: "query_consistent mounted"
    by (simp add: query_consistent_def mounted_def)
  from list_region_at_most_one_state [of mounted
      "[LocationsSettled (Inr [\<lparr>location_id = ''a'', location_name = ''n''\<rparr>]),
        LocationsSettled (Inl \<lparr>code = 500, message = ''Internal error''\<rparr>)]" mounted] c
  show ?thesis by simp
qed

section \<open>Properties of the Account panel\<close>

text \<open>
  C1, as the claim states it, fails. A response of status 500, which is not a 2xx status,
  whose body is a JSON object without the marker, ends in the profile view (with no
  email): the component never reads the status.
\<close>

theorem non_2xx_shows_profile_counterexample:
  "\<not> ok 500 \<and>
   body (Component_after () True
          (Response 500 (Some (JObj [(''error'', JStr ''Internal Server Error'')]))))
     = Profile () None"
  by (simp add: ok_def Component_after_def Component_def useEffect_user_def then_callback_def
      account_mounted_def)

text \<open>
  C1, amended. Whatever the HTTP status of the response: a fetch that rejects, a body
  that is not JSON, the payload \<^verbatim>\<open>null\<close>, and a payload whose \<^verbatim>\<open>message\<close> is
  \<^verbatim>\<open>'unauthorised'\<close> all end in the logged-out view (the auth tabs); every other
  payload ends in the profile view, and the email given to it is the \<^verbatim>\<open>email\<close> member
  of the payload.
\<close>

theorem account_body_after_fetch:
  "body (Component_after a f Rejected) = Tabs \<and>
   body (Component_after a f (Response n None)) = Tabs \<and>
   body (Component_after a f (Response n (Some JNull))) = Tabs \<and>
   (property d ''message'' = Some (JStr ''unauthorised'')
      \<longrightarrow> body (Component_after a f (Response n (Some d))) = Tabs) \<and>
   (d' \<noteq> JNull \<and> property d' ''message'' \<noteq> Some (JStr ''unauthorised'')
      \<longrightarrow> body (Component_after a f (Response n' (Some d')))
            = Profile a (property d' ''email''))"
  by (simp add: Component_after_def Component_def useEffect_user_def then_callback_def
      account_mounted_def)

theorem account_body_after_fetch_witness:
  "body (Component_after () True
          (Response 401 (Some (JObj [(''message'', JStr ''unauthorised'')])))) = Tabs \<and>
   body (Component_after () True
          (Response 200 (Some (JObj
             [(''email'', JStr ''jo@example.org''), (''id'', JStr ''u1''),
              (''timejoined'', JNum 1700000000000), (''roles'', JArr [])]))))
     = Profile () (Some (JStr ''jo@example.org''))"
  using account_body_after_fetch [of "()" True 401
    "JObj [(''message'', JStr ''unauthorised'')]"
    "JObj [(''email'', JStr ''jo@example.org''), (''id'', JStr ''u1''),
           (''timejoined'', JNum 1700000000000), (''roles'', JArr [])]" 200]
  by simp

section \<open>Properties of the Recent Items card\<close>

text \<open>
  C6. The card queries \<^verbatim>\<open>search.objects\<close> with a limit of 6, ordered by
  \<^verbatim>\<open>dateAccessed\<close> descending, and with a single filter on objects whose lower bound
  on \<^verbatim>\<open>dateAccessed\<close> is the ISO string of the \<^verbatim>\<open>Date\<close> of time value 0, the first
  instant of 1 January 1970 UTC.
\<close>

theorem recent_items_query_parameters:
  "fst recentItemsQuery = ''search.objects'' \<and>
   take_arg (snd recentItemsQuery) = 6 \<and>
   orderAndPagination (snd recentItemsQuery)
     = OrderAndPagination (OrderOnly ''dateAccessed'' ''Desc'') \<and>
   filters (snd recentItemsQuery)
     = [Object_filter (DateAccessed_filter (From (toISOString (Date 0))))] \<and>
   toISOString (Date 0) = ''1970-01-01T00:00:00.000Z''"
  by (simp add: recentItemsQuery_def toISOString_def civil_from_days_def year_string_def
      pad4_def pad3_def pad2_def digit_def Let_def)

end
